theory Spec2Isabelle
  imports Complex_Main "HOL-Library.Sublist"
begin

section \<open>Objects and classes\<close>

text \<open>
  The children of a container are objects of the widget hierarchy. Of a child the
  container code only ever asks one thing: \<^verbatim>\<open>isinstance(c, ConstraintsWidget)\<close>.
  The classes that container.py itself declares are constructors of \<open>cls\<close>, with the
  bases the class statements give them:
  \<^verbatim>\<open>class Container(ConstraintsWidget)\<close>, \<^verbatim>\<open>class VContainer(Container)\<close>,
  \<^verbatim>\<open>class HContainer(Container)\<close>. \<open>Declarative\<close> stands for a class outside the
  \<open>ConstraintsWidget\<close> hierarchy and \<open>Subclass name base\<close> for any further class
  derived from \<open>base\<close>.
\<close>

datatype cls =
    Declarative
  | ConstraintsWidget
  | Container
  | VContainer
  | HContainer
  | Subclass string cls

fun issubclass_ConstraintsWidget :: "cls \<Rightarrow> bool" where
  "issubclass_ConstraintsWidget Declarative = False"
| "issubclass_ConstraintsWidget ConstraintsWidget = True"
| "issubclass_ConstraintsWidget Container = True"
| "issubclass_ConstraintsWidget VContainer = True"
| "issubclass_ConstraintsWidget HContainer = True"
| "issubclass_ConstraintsWidget (Subclass name base) = issubclass_ConstraintsWidget base"

text \<open>An object has an identity and a class.\<close>

datatype obj = Obj (obj_id: nat) (obj_cls: cls)

definition isinstance_ConstraintsWidget :: "obj \<Rightarrow> bool" where
  "isinstance_ConstraintsWidget c = issubclass_ConstraintsWidget (obj_cls c)"

section \<open>The store of list objects\<close>

text \<open>
  Python lists are mutable objects reached through references. The store maps every
  address to the list it holds; \<open>next_addr\<close> is the first address not yet handed out.
  \<^verbatim>\<open>xs[:]\<close> allocates a new list with the elements of \<open>xs\<close>, and
  \<^verbatim>\<open>xs.append(x)\<close> changes the list at the address of \<open>xs\<close> in place.
\<close>

type_synonym addr = nat

record 'c store =
  cells :: "addr \<Rightarrow> 'c list"
  next_addr :: addr

definition list_new :: "'c store \<Rightarrow> 'c list \<Rightarrow> addr \<times> 'c store" where
  "list_new s xs =
     (next_addr s,
      s\<lparr>cells := (cells s)(next_addr s := xs), next_addr := Suc (next_addr s)\<rparr>)"

definition list_copy :: "'c store \<Rightarrow> addr \<Rightarrow> addr \<times> 'c store" where
  "list_copy s a = list_new s (cells s a)"

definition list_append :: "'c store \<Rightarrow> addr \<Rightarrow> 'c \<Rightarrow> 'c store" where
  "list_append s a x = s\<lparr>cells := (cells s)(a := cells s a @ [x])\<rparr>"

section \<open>The Container\<close>

text \<open>
  \<open>Box\<close> is the padding value (four numbers); the class itself lives in
  enaml.layout.geometry. The hugging policies are the strings the source writes.
\<close>

type_synonym Box = "int \<times> int \<times> int \<times> int"

text \<open>
  Modelled from the spec: the states of the relayout protocol (section 4.5 of the
  specification). The protocol itself is inherited from ConstraintsWidget
  (constraints_widget.py, not among the sources).
\<close>

datatype layout_state = CLEAN | DIRTY

text \<open>
  The members of a Container. \<open>oid\<close> is the identity of the object, \<open>children\<close> the
  ordered child list, \<open>constraints\<close> the reference to the explicit constraint list.
  \<open>layout\<close> is the state of the relayout protocol and \<open>relayout_requests\<close> counts the
  calls of \<open>request_relayout\<close>.
\<close>

record container =
  oid :: nat
  children :: "obj list"
  constraints :: addr
  share_layout :: bool
  padding :: Box
  hug_width :: string
  hug_height :: string
  layout :: layout_state
  relayout_requests :: nat

text \<open>
  The arguments of a box helper: the widgets of the container and, in the stacking
  containers, the optional spacers. \<open>vbox\<close> and \<open>hbox\<close> (enaml.layout.layout_helpers)
  are parameters of the model: a function from the positional arguments and the
  optional \<open>spacing\<close> keyword to one entry of the constraint list.
\<close>

datatype 'sp item = SpacerItem 'sp | WidgetItem obj

type_synonym ('sp, 'c) box_helper = "'sp item list \<Rightarrow> int option \<Rightarrow> 'c"

text \<open>\<^verbatim>\<open>return [c for c in self.children if isinstance(c, ConstraintsWidget)]\<close>\<close>

definition widgets :: "'a container_scheme \<Rightarrow> obj list" where
  "widgets self = [c \<leftarrow> children self. isinstance_ConstraintsWidget c]"

text \<open>
  \<^verbatim>\<open>
  cns = self.constraints[:]
  if not cns:
      cns.append(vbox(*self.widgets()))
  return cns
  \<close>
  The method assigns no attribute of \<open>self\<close>; what it can change is the store, so the
  model returns the reference \<open>cns\<close> together with the store.
\<close>

definition layout_constraints ::
  "('sp, 'c) box_helper \<Rightarrow> 'a container_scheme \<Rightarrow> 'c store \<Rightarrow> addr \<times> 'c store" where
  "layout_constraints vbox self s =
     (let (cns, s1) = list_copy s (constraints self);
          s2 = (if cells s1 cns = []
                then list_append s1 cns (vbox (map WidgetItem (widgets self)) None)
                else s1)
      in (cns, s2))"

text \<open>The list a call returns: the contents of the returned reference in the new store.\<close>

definition returned_list :: "addr \<times> 'c store \<Rightarrow> 'c list" where
  "returned_list r = cells (snd r) (fst r)"

section \<open>Content anchors\<close>

text \<open>
  \<^verbatim>\<open>contents_left = ConstraintMember()\<close> and its three siblings are constant symbolic
  variables of the container, one per member; the variable is identified by the owning
  object and the member's name. The derived anchors are \<^verbatim>\<open>Constant()\<close> members whose
  default methods build linear expressions over those variables with \<open>-\<close>, \<open>+\<close> and
  \<open>/ 2.0\<close>. An expression is read under a valuation of the variables, over the reals
  (the only divisor the source writes is the literal 2.0).
\<close>

datatype var = ConstraintVariable nat string

datatype expr =
    Variable var
  | Add expr expr
  | Sub expr expr
  | Div expr real

fun eval_expr :: "(var \<Rightarrow> real) \<Rightarrow> expr \<Rightarrow> real" where
  "eval_expr v (Variable x) = v x"
| "eval_expr v (Add a b) = eval_expr v a + eval_expr v b"
| "eval_expr v (Sub a b) = eval_expr v a - eval_expr v b"
| "eval_expr v (Div a k) = eval_expr v a / k"

definition contents_left :: "'a container_scheme \<Rightarrow> expr" where
  "contents_left self = Variable (ConstraintVariable (oid self) ''contents_left'')"

definition contents_right :: "'a container_scheme \<Rightarrow> expr" where
  "contents_right self = Variable (ConstraintVariable (oid self) ''contents_right'')"

definition contents_top :: "'a container_scheme \<Rightarrow> expr" where
  "contents_top self = Variable (ConstraintVariable (oid self) ''contents_top'')"

definition contents_bottom :: "'a container_scheme \<Rightarrow> expr" where
  "contents_bottom self = Variable (ConstraintVariable (oid self) ''contents_bottom'')"

text \<open>\<^verbatim>\<open>return self.contents_right - self.contents_left\<close>\<close>

definition contents_width :: "'a container_scheme \<Rightarrow> expr" where
  "contents_width self = Sub (contents_right self) (contents_left self)"

text \<open>\<^verbatim>\<open>return self.contents_bottom - self.contents_top\<close>\<close>

definition contents_height :: "'a container_scheme \<Rightarrow> expr" where
  "contents_height self = Sub (contents_bottom self) (contents_top self)"

text \<open>\<^verbatim>\<open>return self.contents_top + self.contents_height / 2.0\<close>\<close>

definition contents_v_center :: "'a container_scheme \<Rightarrow> expr" where
  "contents_v_center self = Add (contents_top self) (Div (contents_height self) 2)"

text \<open>\<^verbatim>\<open>return self.contents_left + self.contents_width / 2.0\<close>\<close>

definition contents_h_center :: "'a container_scheme \<Rightarrow> expr" where
  "contents_h_center self = Add (contents_left self) (Div (contents_width self) 2)"

section \<open>Child events and observers\<close>

text \<open>
  Modelled from the spec: \<open>request_relayout\<close> is inherited from ConstraintsWidget
  (constraints_widget.py, not among the sources). Section 4.5 of the specification:
  requesting a relayout marks the container dirty. The counter \<open>relayout_requests\<close>
  records how often the method has been called.
\<close>

definition request_relayout :: "'a container_scheme \<Rightarrow> 'a container_scheme" where
  "request_relayout self =
     self\<lparr>layout := DIRTY, relayout_requests := Suc (relayout_requests self)\<rparr>"

text \<open>
  \<^verbatim>\<open>
  super(Container, self).child_added(child)
  if isinstance(child, ConstraintsWidget):
      self.request_relayout()
  \<close>
  The handler of the superclass is a parameter: any function from the container and the
  child to the container it leaves behind. The handlers have no return statement; the
  result of the model is the container after the call.
\<close>

type_synonym 'a child_event = "'a container_scheme \<Rightarrow> obj \<Rightarrow> 'a container_scheme"

definition child_added :: "'a child_event \<Rightarrow> 'a container_scheme \<Rightarrow> obj \<Rightarrow> 'a container_scheme" where
  "child_added super_child_added self child =
     (let self1 = super_child_added self child
      in if isinstance_ConstraintsWidget child then request_relayout self1 else self1)"

definition child_removed :: "'a child_event \<Rightarrow> 'a container_scheme \<Rightarrow> obj \<Rightarrow> 'a container_scheme" where
  "child_removed super_child_removed self child =
     (let self1 = super_child_removed self child
      in if isinstance_ConstraintsWidget child then request_relayout self1 else self1)"

text \<open>
  The change notification handed to an observer; the handler only passes it on, so the
  old and the new value are left out.
\<close>

record change =
  change_type :: string
  change_name :: string

text \<open>
  Modelled from the spec: the handler of the superclass, ConstraintsWidget's
  \<open>_layout_invalidated\<close> (constraints_widget.py, not among the sources). Section 4.5 and
  the design notes of the specification: a change of an observed member is an
  invalidation, which requests a relayout.
\<close>

definition ConstraintsWidget_layout_invalidated ::
  "'a container_scheme \<Rightarrow> change \<Rightarrow> 'a container_scheme" where
  "ConstraintsWidget_layout_invalidated self ch = request_relayout self"

text \<open>
  \<^verbatim>\<open>
  @observe(('share_layout', 'padding'))
  def _layout_invalidated(self, change):
      super(Container, self)._layout_invalidated(change)
  \<close>
  The names of the model drop the leading underscore. The decorator registers the
  handler for the two member names.
\<close>

definition layout_invalidated :: "'a container_scheme \<Rightarrow> change \<Rightarrow> 'a container_scheme" where
  "layout_invalidated self ch = ConstraintsWidget_layout_invalidated self ch"

definition layout_invalidated_observes :: "string list" where
  "layout_invalidated_observes = [''share_layout'', ''padding'']"

text \<open>
  Modelled from the spec: the dispatch of a change to the observers is the atom
  framework's. The observers registered for the member's name run with an update
  notification (the design notes of the specification: property-change observers
  trigger the invalidation).
\<close>

definition notify :: "'a container_scheme \<Rightarrow> string \<Rightarrow> 'a container_scheme" where
  "notify self name =
     (if name \<in> set layout_invalidated_observes
      then layout_invalidated self \<lparr>change_type = ''update'', change_name = name\<rparr>
      else self)"

text \<open>
  Modelled from the spec: assignment to the \<open>share_layout\<close> member is the atom
  framework's. It stores the value and, when the value differs from the old one,
  notifies the observers of the member.
\<close>

definition set_share_layout :: "'a container_scheme \<Rightarrow> bool \<Rightarrow> 'a container_scheme" where
  "set_share_layout self v =
     (if share_layout self = v then self
      else notify (self\<lparr>share_layout := v\<rparr>) ''share_layout'')"

text \<open>
  Modelled from the spec: assignment to the \<open>padding\<close> member, in the same way.
\<close>

definition set_padding :: "'a container_scheme \<Rightarrow> Box \<Rightarrow> 'a container_scheme" where
  "set_padding self b =
     (if padding self = b then self
      else notify (self\<lparr>padding := b\<rparr>) ''padding'')"

section \<open>The stacking containers\<close>

text \<open>
  \<^verbatim>\<open>spacing = d_(Range(low=0, value=10))\<close>, and two optional spacers
  (\<^verbatim>\<open>d_(Typed(Spacer))\<close>, None unless assigned). The Spacer class lives in
  enaml.layout.layout_helpers; its values are the type parameter \<open>'sp\<close>.
\<close>

record 'sp vcontainer = container +
  spacing :: int
  top_spacer :: "'sp option"
  bottom_spacer :: "'sp option"

record 'sp hcontainer = container +
  spacing :: int
  left_spacer :: "'sp option"
  right_spacer :: "'sp option"

text \<open>
  \<^verbatim>\<open>
  items = []
  if self.top_spacer is not None:
      items.append(self.top_spacer)
  items.extend(self.widgets())
  if self.bottom_spacer is not None:
      items.append(self.bottom_spacer)
  cns = self.constraints[:]
  cns.append(vbox(*items, spacing=self.spacing))
  return cns
  \<close>
  \<open>items\<close> is a local list that is unpacked into the call and never escapes, so it is a
  value of the model; \<open>cns\<close> is a list object of the store.
\<close>

definition VContainer_layout_constraints ::
  "('sp, 'c) box_helper \<Rightarrow> ('sp, 'a) vcontainer_scheme \<Rightarrow> 'c store \<Rightarrow> addr \<times> 'c store" where
  "VContainer_layout_constraints vbox self s =
     (let items0 = [];
          items1 = (case top_spacer self of None \<Rightarrow> items0 | Some sp \<Rightarrow> items0 @ [SpacerItem sp]);
          items2 = items1 @ map WidgetItem (widgets self);
          items3 = (case bottom_spacer self of None \<Rightarrow> items2 | Some sp \<Rightarrow> items2 @ [SpacerItem sp]);
          (cns, s1) = list_copy s (constraints self)
      in (cns, list_append s1 cns (vbox items3 (Some (vcontainer.spacing self)))))"

text \<open>The same with \<open>left_spacer\<close>, \<open>right_spacer\<close> and \<open>hbox\<close>.\<close>

definition HContainer_layout_constraints ::
  "('sp, 'c) box_helper \<Rightarrow> ('sp, 'a) hcontainer_scheme \<Rightarrow> 'c store \<Rightarrow> addr \<times> 'c store" where
  "HContainer_layout_constraints hbox self s =
     (let items0 = [];
          items1 = (case left_spacer self of None \<Rightarrow> items0 | Some sp \<Rightarrow> items0 @ [SpacerItem sp]);
          items2 = items1 @ map WidgetItem (widgets self);
          items3 = (case right_spacer self of None \<Rightarrow> items2 | Some sp \<Rightarrow> items2 @ [SpacerItem sp]);
          (cns, s1) = list_copy s (constraints self)
      in (cns, list_append s1 cns (hbox items3 (Some (hcontainer.spacing self)))))"

text \<open>
  The arguments the two methods hand to the box helper, written in one expression.
\<close>

definition VContainer_items :: "('sp, 'a) vcontainer_scheme \<Rightarrow> 'sp item list" where
  "VContainer_items self =
     (case top_spacer self of None \<Rightarrow> [] | Some sp \<Rightarrow> [SpacerItem sp])
     @ map WidgetItem (widgets self)
     @ (case bottom_spacer self of None \<Rightarrow> [] | Some sp \<Rightarrow> [SpacerItem sp])"

definition HContainer_items :: "('sp, 'a) hcontainer_scheme \<Rightarrow> 'sp item list" where
  "HContainer_items self =
     (case left_spacer self of None \<Rightarrow> [] | Some sp \<Rightarrow> [SpacerItem sp])
     @ map WidgetItem (widgets self)
     @ (case right_spacer self of None \<Rightarrow> [] | Some sp \<Rightarrow> [SpacerItem sp])"

text \<open>The error of a rejected configuration, under the name the specification gives it.\<close>

datatype error = ConfigurationError

text \<open>
  Modelled from the spec: the validation of a \<open>Range\<close> member is the atom
  framework's. The specification: the spacing is a non-negative number, and a negative
  spacing is a configuration error raised at the point of configuration. A value below
  the lower bound \<open>low\<close> is rejected.
\<close>

definition Range_validate :: "int \<Rightarrow> int \<Rightarrow> error + int" where
  "Range_validate low v = (if v < low then Inl ConfigurationError else Inr v)"

text \<open>
  Modelled from the spec: assignment to \<^verbatim>\<open>spacing = d_(Range(low=0, value=10))\<close> of a
  VContainer. The value is validated before it is stored; a rejected assignment raises
  and leaves the object as it was.
\<close>

definition VContainer_set_spacing ::
  "('sp, 'a) vcontainer_scheme \<Rightarrow> int \<Rightarrow> error + ('sp, 'a) vcontainer_scheme" where
  "VContainer_set_spacing self v =
     (case Range_validate 0 v of
        Inl e \<Rightarrow> Inl e
      | Inr v' \<Rightarrow> Inr (self\<lparr>vcontainer.spacing := v'\<rparr>))"

text \<open>
  Modelled from the spec: assignment to \<^verbatim>\<open>spacing = d_(Range(low=0, value=10))\<close> of an
  HContainer, in the same way.
\<close>

definition HContainer_set_spacing ::
  "('sp, 'a) hcontainer_scheme \<Rightarrow> int \<Rightarrow> error + ('sp, 'a) hcontainer_scheme" where
  "HContainer_set_spacing self v =
     (case Range_validate 0 v of
        Inl e \<Rightarrow> Inl e
      | Inr v' \<Rightarrow> Inr (self\<lparr>hcontainer.spacing := v'\<rparr>))"

text \<open>
  A run of assignments to \<open>spacing\<close>, each either stored or rejected: the states a
  stacking container can reach through its spacing member.
\<close>

fun VContainer_assign_spacings ::
  "('sp, 'a) vcontainer_scheme \<Rightarrow> int list \<Rightarrow> ('sp, 'a) vcontainer_scheme" where
  "VContainer_assign_spacings self [] = self"
| "VContainer_assign_spacings self (v # vs) =
     (case VContainer_set_spacing self v of
        Inl e \<Rightarrow> VContainer_assign_spacings self vs
      | Inr self' \<Rightarrow> VContainer_assign_spacings self' vs)"

fun HContainer_assign_spacings ::
  "('sp, 'a) hcontainer_scheme \<Rightarrow> int list \<Rightarrow> ('sp, 'a) hcontainer_scheme" where
  "HContainer_assign_spacings self [] = self"
| "HContainer_assign_spacings self (v # vs) =
     (case HContainer_set_spacing self v of
        Inl e \<Rightarrow> HContainer_assign_spacings self vs
      | Inr self' \<Rightarrow> HContainer_assign_spacings self' vs)"

section \<open>Construction\<close>

text \<open>
  A new object holds the default of every member that container.py declares:
  \<^verbatim>\<open>share_layout = d_(Bool(False))\<close>,
  \<^verbatim>\<open>padding = d_(Coerced(Box, (10, 10, 10, 10)))\<close>,
  \<^verbatim>\<open>hug_width = set_default('ignore')\<close>, \<^verbatim>\<open>hug_height = set_default('ignore')\<close>,
  and in the stacking containers \<^verbatim>\<open>spacing = d_(Range(low=0, value=10))\<close> and no
  spacers. The \<open>constraints\<close> member and the child list are inherited
  (constraints_widget.py and the object tree are not among the sources); for them the
  constructors follow the specification: the explicit constraint list is a new empty
  list, there are no children, and a container that was never solved is not clean.
\<close>

definition Container_new :: "nat \<Rightarrow> 'c store \<Rightarrow> container \<times> 'c store" where
  "Container_new i s =
     (let (a, s1) = list_new s []
      in (\<lparr>oid = i, children = [], constraints = a, share_layout = False,
           padding = (10, 10, 10, 10), hug_width = ''ignore'', hug_height = ''ignore'',
           layout = DIRTY, relayout_requests = 0\<rparr>, s1))"

definition VContainer_new :: "nat \<Rightarrow> 'c store \<Rightarrow> 'sp vcontainer \<times> 'c store" where
  "VContainer_new i s =
     (let (a, s1) = list_new s []
      in (\<lparr>oid = i, children = [], constraints = a, share_layout = False,
           padding = (10, 10, 10, 10), hug_width = ''ignore'', hug_height = ''ignore'',
           layout = DIRTY, relayout_requests = 0,
           vcontainer.spacing = 10, top_spacer = None, bottom_spacer = None\<rparr>, s1))"

definition HContainer_new :: "nat \<Rightarrow> 'c store \<Rightarrow> 'sp hcontainer \<times> 'c store" where
  "HContainer_new i s =
     (let (a, s1) = list_new s []
      in (\<lparr>oid = i, children = [], constraints = a, share_layout = False,
           padding = (10, 10, 10, 10), hug_width = ''ignore'', hug_height = ''ignore'',
           layout = DIRTY, relayout_requests = 0,
           hcontainer.spacing = 10, left_spacer = None, right_spacer = None\<rparr>, s1))"

section \<open>Concrete instances\<close>

text \<open>
  Instances on which the model is evaluated. The entries of a constraint list are
  either constraints the user declared or the record of a call of a box helper with its
  arguments.
\<close>

datatype entry =
    UserConstraint nat
  | VBoxCall "nat item list" "int option"
  | HBoxCall "nat item list" "int option"

definition empty_store :: "entry store" where
  "empty_store = \<lparr>cells = (\<lambda>a. []), next_addr = 0\<rparr>"

definition label1 :: obj where
  "label1 = Obj 1 (Subclass ''Label'' ConstraintsWidget)"

definition inner1 :: obj where
  "inner1 = Obj 2 Container"

definition timer1 :: obj where
  "timer1 = Obj 3 (Subclass ''Timer'' Declarative)"

text \<open>
  A container created in the empty store, so that its constraint list is the list at
  address 0, with three children, two of them participating, in a clean state.
\<close>

definition box1 :: container where
  "box1 = (fst (Container_new 0 empty_store))
            \<lparr>children := [label1, timer1, inner1], layout := CLEAN\<rparr>"

text \<open>The store after the creation: the list at address 0 is empty.\<close>

definition store1 :: "entry store" where
  "store1 = snd (Container_new 0 empty_store)"

text \<open>The store in which the list at address 0 holds one explicit constraint.\<close>

definition store2 :: "entry store" where
  "store2 = list_append store1 (constraints box1) (UserConstraint 7)"

text \<open>
  Stacking containers with one participating child, created in the empty store as
  well: their constraint list is the list at address 0 of \<open>store1\<close> and \<open>store2\<close>.
\<close>

definition vbox1 :: "nat vcontainer" where
  "vbox1 = (fst (VContainer_new 0 empty_store))\<lparr>children := [label1]\<rparr>"

definition hbox1 :: "nat hcontainer" where
  "hbox1 = (fst (HContainer_new 0 empty_store))\<lparr>children := [label1]\<rparr>"

text \<open>A handler of the superclass that leaves the container as it is.\<close>

definition plain_child_event :: "'a container_scheme \<Rightarrow> obj \<Rightarrow> 'a container_scheme" where
  "plain_child_event self child = self"

section \<open>Store lemmas\<close>

lemma list_new_fst: "fst (list_new s xs) = next_addr s"
  by (simp add: list_new_def)

lemma list_new_cells:
  "cells (snd (list_new s xs)) b = (if b = next_addr s then xs else cells s b)"
  by (simp add: list_new_def)

lemma list_new_next: "next_addr (snd (list_new s xs)) = Suc (next_addr s)"
  by (simp add: list_new_def)

lemma list_append_cells:
  "cells (list_append s a x) b = (if b = a then cells s a @ [x] else cells s b)"
  by (simp add: list_append_def)

lemma list_append_next: "next_addr (list_append s a x) = next_addr s"
  by (simp add: list_append_def)

lemmas store_simps =
  list_new_fst list_new_cells list_new_next list_append_cells list_append_next

text \<open>What a call of \<open>layout_constraints\<close> returns and what it does to the store.\<close>

lemma layout_constraints_fst: "fst (layout_constraints vbox self s) = next_addr s"
  by (simp add: layout_constraints_def list_copy_def split_beta Let_def store_simps)

lemma layout_constraints_next:
  "next_addr (snd (layout_constraints vbox self s)) = Suc (next_addr s)"
  by (simp add: layout_constraints_def list_copy_def split_beta Let_def store_simps)

lemma layout_constraints_cells:
  "cells (snd (layout_constraints vbox self s)) b =
     (if b = next_addr s
      then (if cells s (constraints self) = []
            then [vbox (map WidgetItem (widgets self)) None]
            else cells s (constraints self))
      else cells s b)"
  by (simp add: layout_constraints_def list_copy_def split_beta Let_def store_simps)

lemma layout_constraints_returned:
  "returned_list (layout_constraints vbox self s) =
     (if cells s (constraints self) = []
      then [vbox (map WidgetItem (widgets self)) None]
      else cells s (constraints self))"
  by (simp add: returned_list_def layout_constraints_fst layout_constraints_cells)

text \<open>What the stacking containers return and what they do to the store.\<close>

lemma VContainer_layout_constraints_returned:
  "returned_list (VContainer_layout_constraints vbox self s) =
     cells s (constraints self) @ [vbox (VContainer_items self) (Some (vcontainer.spacing self))]"
  by (simp add: returned_list_def VContainer_layout_constraints_def VContainer_items_def
      list_copy_def split_beta Let_def store_simps split: option.splits)

lemma HContainer_layout_constraints_returned:
  "returned_list (HContainer_layout_constraints hbox self s) =
     cells s (constraints self) @ [hbox (HContainer_items self) (Some (hcontainer.spacing self))]"
  by (simp add: returned_list_def HContainer_layout_constraints_def HContainer_items_def
      list_copy_def split_beta Let_def store_simps split: option.splits)

lemma VContainer_layout_constraints_store:
  "fst (VContainer_layout_constraints vbox self s) = next_addr s
   \<and> (b \<noteq> next_addr s \<longrightarrow>
        cells (snd (VContainer_layout_constraints vbox self s)) b = cells s b)"
  by (simp add: VContainer_layout_constraints_def list_copy_def split_beta Let_def store_simps)

lemma HContainer_layout_constraints_store:
  "fst (HContainer_layout_constraints hbox self s) = next_addr s
   \<and> (b \<noteq> next_addr s \<longrightarrow>
        cells (snd (HContainer_layout_constraints hbox self s)) b = cells s b)"
  by (simp add: HContainer_layout_constraints_def list_copy_def split_beta Let_def store_simps)

text \<open>Assignments to the spacing keep it non-negative.\<close>

lemma VContainer_set_spacing_cases:
  "VContainer_set_spacing self v =
     (if v < 0 then Inl ConfigurationError else Inr (self\<lparr>vcontainer.spacing := v\<rparr>))"
  by (simp add: VContainer_set_spacing_def Range_validate_def)

lemma HContainer_set_spacing_cases:
  "HContainer_set_spacing self v =
     (if v < 0 then Inl ConfigurationError else Inr (self\<lparr>hcontainer.spacing := v\<rparr>))"
  by (simp add: HContainer_set_spacing_def Range_validate_def)

lemma VContainer_assign_spacings_inv:
  "0 \<le> vcontainer.spacing self \<Longrightarrow>
   0 \<le> vcontainer.spacing (VContainer_assign_spacings self vs)"
proof (induction vs arbitrary: self)
  case Nil
  then show ?case by simp
next
  case (Cons v vs)
  show ?case
  proof (cases "v < 0")
    case True
    then show ?thesis
      using Cons by (simp add: VContainer_set_spacing_cases)
  next
    case False
    then have "0 \<le> vcontainer.spacing (self\<lparr>vcontainer.spacing := v\<rparr>)" by simp
    from Cons.IH [OF this] False show ?thesis
      by (simp add: VContainer_set_spacing_cases)
  qed
qed

lemma HContainer_assign_spacings_inv:
  "0 \<le> hcontainer.spacing self \<Longrightarrow>
   0 \<le> hcontainer.spacing (HContainer_assign_spacings self vs)"
proof (induction vs arbitrary: self)
  case Nil
  then show ?case by simp
next
  case (Cons v vs)
  show ?case
  proof (cases "v < 0")
    case True
    then show ?thesis
      using Cons by (simp add: HContainer_set_spacing_cases)
  next
    case False
    then have "0 \<le> hcontainer.spacing (self\<lparr>hcontainer.spacing := v\<rparr>)" by simp
    from Cons.IH [OF this] False show ?thesis
      by (simp add: HContainer_set_spacing_cases)
  qed
qed

section \<open>Properties\<close>

text \<open>
  C1: \<open>layout_constraints\<close> of the base Container returns exactly the explicit
  constraint list when that list is not empty, and otherwise the list whose only entry
  is \<open>vbox\<close> applied to \<open>widgets()\<close>; the two are never mixed.
\<close>

theorem layout_constraints_explicit_or_default:
  "returned_list (layout_constraints vbox self s) =
     (if cells s (constraints self) \<noteq> []
      then cells s (constraints self)
      else [vbox (map WidgetItem (widgets self)) None])"
  by (simp add: layout_constraints_returned)

text \<open>
  C8: \<open>widgets\<close> returns the constraint-participating children and only them, in the
  order of the child list: it is a subsequence of the child list, every child that is
  a \<open>ConstraintsWidget\<close> occurs in it as often as in the child list, and no other
  child occurs in it at all.
\<close>

theorem widgets_participating_subsequence:
  "subseq (widgets self) (children self)
   \<and> widgets self = filter isinstance_ConstraintsWidget (children self)
   \<and> count_list (widgets self) c =
       (if isinstance_ConstraintsWidget c then count_list (children self) c else 0)"
proof -
  have cnt: "count_list (filter P xs) c = (if P c then count_list xs c else 0)"
    for P and xs :: "obj list"
    by (induction xs) auto
  show ?thesis
    unfolding widgets_def using cnt by simp
qed

text \<open>
  C2, as the code has it: a VContainer and an HContainer return the explicit
  constraint list followed by one more entry, the box helper applied to the optional
  leading spacer, the participating children in order and the optional trailing spacer,
  with the container's spacing. The helper entry is appended whether or not the
  explicit list is empty.
\<close>

theorem stacking_layout_constraints_append_helper:
  "returned_list (VContainer_layout_constraints vbox vself s) =
     cells s (constraints vself) @ [vbox (VContainer_items vself) (Some (vcontainer.spacing vself))]
   \<and> returned_list (HContainer_layout_constraints hbox hself s) =
     cells s (constraints hself) @ [hbox (HContainer_items hself) (Some (hcontainer.spacing hself))]"
  by (simp add: VContainer_layout_constraints_returned HContainer_layout_constraints_returned)

text \<open>
  C2 as stated fails: with the explicit list \<open>[UserConstraint 7]\<close> the stacking
  containers do not return that list; the helper entry follows it.
\<close>

theorem stacking_explicit_only_counterexample:
  "cells store2 (constraints vbox1) = [UserConstraint 7]
   \<and> returned_list (VContainer_layout_constraints VBoxCall vbox1 store2)
       = [UserConstraint 7, VBoxCall [WidgetItem label1] (Some 10)]
   \<and> returned_list (VContainer_layout_constraints VBoxCall vbox1 store2)
       \<noteq> cells store2 (constraints vbox1)
   \<and> cells store2 (constraints hbox1) = [UserConstraint 7]
   \<and> returned_list (HContainer_layout_constraints HBoxCall hbox1 store2)
       = [UserConstraint 7, HBoxCall [WidgetItem label1] (Some 10)]
   \<and> returned_list (HContainer_layout_constraints HBoxCall hbox1 store2)
       \<noteq> cells store2 (constraints hbox1)"
  by (simp add: VContainer_layout_constraints_returned HContainer_layout_constraints_returned
      VContainer_items_def HContainer_items_def widgets_def isinstance_ConstraintsWidget_def
      store2_def store1_def box1_def vbox1_def hbox1_def label1_def empty_store_def
      Container_new_def VContainer_new_def HContainer_new_def list_new_def list_append_def)

text \<open>
  C3, as the code has it: with an empty explicit list the returned list has exactly
  one entry, whatever the number of participating children: the \<open>vbox\<close> helper applied
  to the participating children in the order of the child list, without a spacing
  argument. Neither chain constraints nor definitional anchor constraints are entries
  of the list.
\<close>

theorem layout_constraints_default_single_helper:
  assumes "cells s (constraints self) = []"
  shows "returned_list (layout_constraints vbox self s) =
           [vbox (map WidgetItem (filter isinstance_ConstraintsWidget (children self))) None]
         \<and> length (returned_list (layout_constraints vbox self s)) = 1"
  using assms by (simp add: layout_constraints_returned widgets_def)

theorem layout_constraints_default_single_helper_witness:
  "cells store1 (constraints box1) = []
   \<and> returned_list (layout_constraints VBoxCall box1 store1) =
       [VBoxCall [WidgetItem label1, WidgetItem inner1] None]
   \<and> length (returned_list (layout_constraints VBoxCall box1 store1)) = 1"
proof -
  have e: "cells store1 (constraints box1) = []"
    by (simp add: store1_def box1_def Container_new_def list_new_def empty_store_def)
  have c: "filter isinstance_ConstraintsWidget (children box1) = [label1, inner1]"
    by (simp add: box1_def Container_new_def list_new_def isinstance_ConstraintsWidget_def
        label1_def inner1_def timer1_def)
  show ?thesis
    using e c layout_constraints_default_single_helper [OF e, of VBoxCall] by simp
qed

text \<open>
  C3 as stated fails: a container with two participating children and no explicit
  constraints returns one entry, not the 1 + 8 entries of the claim.
\<close>

theorem layout_constraints_count_counterexample:
  "cells store1 (constraints box1) = []
   \<and> length (widgets box1) = 2
   \<and> length (returned_list (layout_constraints VBoxCall box1 store1)) = 1
   \<and> length (returned_list (layout_constraints VBoxCall box1 store1))
       \<noteq> (length (widgets box1) - 1) + 8"
  by (simp add: layout_constraints_returned widgets_def isinstance_ConstraintsWidget_def
      store1_def box1_def label1_def inner1_def timer1_def empty_store_def
      Container_new_def list_new_def)

text \<open>
  C5: a call of \<open>layout_constraints\<close> changes no list that existed before the call,
  in particular not the stored explicit list; the reference it returns is new, so it
  is not the stored one; and a second call in the resulting store returns an equal
  list under yet another reference, leaving the first result as it was.
\<close>

theorem layout_constraints_no_mutation:
  assumes "constraints self < next_addr s"
  shows "(\<forall>a. a < next_addr s \<longrightarrow>
            cells (snd (layout_constraints vbox self s)) a = cells s a)
         \<and> cells (snd (layout_constraints vbox self s)) (constraints self)
             = cells s (constraints self)
         \<and> next_addr s \<le> fst (layout_constraints vbox self s)
         \<and> fst (layout_constraints vbox self s) \<noteq> constraints self
         \<and> returned_list (layout_constraints vbox self (snd (layout_constraints vbox self s)))
             = returned_list (layout_constraints vbox self s)
         \<and> fst (layout_constraints vbox self (snd (layout_constraints vbox self s)))
             \<noteq> fst (layout_constraints vbox self s)
         \<and> cells (snd (layout_constraints vbox self (snd (layout_constraints vbox self s))))
               (fst (layout_constraints vbox self s))
             = returned_list (layout_constraints vbox self s)"
proof -
  let ?r = "layout_constraints vbox self s"
  have old: "cells (snd ?r) a = cells s a" if "a < next_addr s" for a
    using that by (simp add: layout_constraints_cells)
  have stored: "cells (snd ?r) (constraints self) = cells s (constraints self)"
    using assms old by blast
  have fresh: "fst ?r = next_addr s"
    by (rule layout_constraints_fst)
  have again: "returned_list (layout_constraints vbox self (snd ?r)) = returned_list ?r"
    using stored by (simp add: layout_constraints_returned)
  have other: "fst (layout_constraints vbox self (snd ?r)) \<noteq> fst ?r"
    by (simp add: layout_constraints_fst layout_constraints_next)
  have kept: "cells (snd (layout_constraints vbox self (snd ?r))) (fst ?r) = returned_list ?r"
    by (simp add: layout_constraints_cells layout_constraints_next layout_constraints_fst
        returned_list_def)
  show ?thesis
    using assms old stored fresh again other kept by auto
qed

theorem layout_constraints_no_mutation_witness:
  "constraints box1 < next_addr store2
   \<and> cells (snd (layout_constraints VBoxCall box1 store2)) (constraints box1)
       = [UserConstraint 7]
   \<and> fst (layout_constraints VBoxCall box1 store2) \<noteq> constraints box1
   \<and> returned_list (layout_constraints VBoxCall box1 (snd (layout_constraints VBoxCall box1 store2)))
       = returned_list (layout_constraints VBoxCall box1 store2)"
proof -
  have h: "constraints box1 < next_addr store2"
    by (simp add: store2_def store1_def box1_def Container_new_def list_new_def
        list_append_def empty_store_def)
  have e: "cells store2 (constraints box1) = [UserConstraint 7]"
    by (simp add: store2_def store1_def box1_def Container_new_def list_new_def
        list_append_def empty_store_def)
  show ?thesis
    using h e layout_constraints_no_mutation [OF h, of VBoxCall] by simp
qed

text \<open>
  C4: the derived content anchors are, as expressions, the difference of the two
  edges and the leading edge plus half the span; under every valuation of the
  variables the width is right minus left, the height is bottom minus top, and each
  centre is the midpoint of its span.
\<close>

theorem contents_anchor_equations:
  "contents_width self = Sub (contents_right self) (contents_left self)
   \<and> contents_height self = Sub (contents_bottom self) (contents_top self)
   \<and> contents_v_center self = Add (contents_top self) (Div (contents_height self) 2)
   \<and> contents_h_center self = Add (contents_left self) (Div (contents_width self) 2)
   \<and> eval_expr v (contents_width self)
       = eval_expr v (contents_right self) - eval_expr v (contents_left self)
   \<and> eval_expr v (contents_height self)
       = eval_expr v (contents_bottom self) - eval_expr v (contents_top self)
   \<and> eval_expr v (contents_v_center self)
       = eval_expr v (contents_top self) + eval_expr v (contents_height self) / 2
   \<and> eval_expr v (contents_h_center self)
       = eval_expr v (contents_left self) + eval_expr v (contents_width self) / 2
   \<and> eval_expr v (contents_v_center self)
       = (eval_expr v (contents_top self) + eval_expr v (contents_bottom self)) / 2
   \<and> eval_expr v (contents_h_center self)
       = (eval_expr v (contents_left self) + eval_expr v (contents_right self)) / 2"
  by (simp add: contents_width_def contents_height_def contents_v_center_def
      contents_h_center_def field_simps)

text \<open>
  C6: an assignment that changes the padding or the share flag runs the invalidation
  handler on the updated container, which requests a relayout: afterwards the new
  value is stored, the container is dirty and one more relayout has been requested.
\<close>

theorem padding_share_layout_invalidate:
  "(b \<noteq> padding self \<longrightarrow>
      set_padding self b
        = layout_invalidated (self\<lparr>padding := b\<rparr>)
            \<lparr>change_type = ''update'', change_name = ''padding''\<rparr>
      \<and> padding (set_padding self b) = b
      \<and> layout (set_padding self b) = DIRTY
      \<and> relayout_requests (set_padding self b) = Suc (relayout_requests self))
   \<and> (f \<noteq> share_layout self \<longrightarrow>
      set_share_layout self f
        = layout_invalidated (self\<lparr>share_layout := f\<rparr>)
            \<lparr>change_type = ''update'', change_name = ''share_layout''\<rparr>
      \<and> share_layout (set_share_layout self f) = f
      \<and> layout (set_share_layout self f) = DIRTY
      \<and> relayout_requests (set_share_layout self f) = Suc (relayout_requests self))"
  by (auto simp add: set_padding_def set_share_layout_def notify_def
      layout_invalidated_observes_def layout_invalidated_def
      ConstraintsWidget_layout_invalidated_def request_relayout_def)

theorem padding_share_layout_invalidate_witness:
  "(5, 5, 5, 5) \<noteq> padding box1 \<and> layout box1 = CLEAN
   \<and> layout (set_padding box1 (5, 5, 5, 5)) = DIRTY
   \<and> relayout_requests (set_padding box1 (5, 5, 5, 5)) = 1
   \<and> True \<noteq> share_layout box1
   \<and> layout (set_share_layout box1 True) = DIRTY
   \<and> relayout_requests (set_share_layout box1 True) = 1"
proof -
  have p: "(5, 5, 5, 5) \<noteq> padding box1"
    by (simp add: box1_def Container_new_def list_new_def)
  have f: "True \<noteq> share_layout box1"
    by (simp add: box1_def Container_new_def list_new_def)
  have c: "layout box1 = CLEAN" "relayout_requests box1 = 0"
    by (simp_all add: box1_def Container_new_def list_new_def)
  have d: "layout (set_padding box1 (5, 5, 5, 5)) = DIRTY"
    "relayout_requests (set_padding box1 (5, 5, 5, 5)) = Suc (relayout_requests box1)"
    "layout (set_share_layout box1 True) = DIRTY"
    "relayout_requests (set_share_layout box1 True) = Suc (relayout_requests box1)"
    using p f padding_share_layout_invalidate [of "(5, 5, 5, 5)" box1 True] by blast+
  show ?thesis
    using p f c d by simp
qed

text \<open>
  C7: on top of what the handler of the superclass does, \<open>child_added\<close> requests
  exactly one relayout when the child is a \<open>ConstraintsWidget\<close> (a nested Container,
  VContainer or HContainer is one) and none otherwise, and so does \<open>child_removed\<close>.
  For a child that is not a \<open>ConstraintsWidget\<close> the handlers do nothing beyond the
  handler of the superclass.
\<close>

theorem child_events_request_relayout:
  "relayout_requests (child_added super_handler self child)
     = relayout_requests (super_handler self child) + (if isinstance_ConstraintsWidget child then 1 else 0)
   \<and> relayout_requests (child_removed super_handler self child)
     = relayout_requests (super_handler self child) + (if isinstance_ConstraintsWidget child then 1 else 0)
   \<and> (isinstance_ConstraintsWidget child \<longrightarrow>
        child_added super_handler self child = request_relayout (super_handler self child)
        \<and> child_removed super_handler self child = request_relayout (super_handler self child)
        \<and> layout (child_added super_handler self child) = DIRTY
        \<and> layout (child_removed super_handler self child) = DIRTY)
   \<and> (\<not> isinstance_ConstraintsWidget child \<longrightarrow>
        child_added super_handler self child = super_handler self child
        \<and> child_removed super_handler self child = super_handler self child)
   \<and> isinstance_ConstraintsWidget (Obj i Container)
   \<and> isinstance_ConstraintsWidget (Obj i VContainer)
   \<and> isinstance_ConstraintsWidget (Obj i HContainer)"
  by (simp add: child_added_def child_removed_def request_relayout_def Let_def
      isinstance_ConstraintsWidget_def)

theorem child_events_request_relayout_witness:
  "isinstance_ConstraintsWidget inner1
   \<and> relayout_requests (child_added plain_child_event box1 inner1) = 1
   \<and> layout (child_added plain_child_event box1 inner1) = DIRTY
   \<and> relayout_requests (child_removed plain_child_event box1 inner1) = 1
   \<and> \<not> isinstance_ConstraintsWidget timer1
   \<and> child_added plain_child_event box1 timer1 = box1
   \<and> child_removed plain_child_event box1 timer1 = box1
   \<and> layout (child_added plain_child_event box1 timer1) = CLEAN"
proof -
  have a: "isinstance_ConstraintsWidget inner1"
    by (simp add: inner1_def isinstance_ConstraintsWidget_def)
  have b: "\<not> isinstance_ConstraintsWidget timer1"
    by (simp add: timer1_def isinstance_ConstraintsWidget_def)
  have c: "layout box1 = CLEAN" "relayout_requests box1 = 0"
    by (simp_all add: box1_def Container_new_def list_new_def)
  have p: "plain_child_event box1 inner1 = box1" "plain_child_event box1 timer1 = box1"
    by (simp_all add: plain_child_event_def)
  have d: "relayout_requests (child_added plain_child_event box1 inner1)
             = relayout_requests (plain_child_event box1 inner1)
               + (if isinstance_ConstraintsWidget inner1 then 1 else 0)"
    "relayout_requests (child_removed plain_child_event box1 inner1)
             = relayout_requests (plain_child_event box1 inner1)
               + (if isinstance_ConstraintsWidget inner1 then 1 else 0)"
    "layout (child_added plain_child_event box1 inner1) = DIRTY"
    using a child_events_request_relayout [of plain_child_event box1 inner1] by blast+
  have e: "child_added plain_child_event box1 timer1 = plain_child_event box1 timer1"
    "child_removed plain_child_event box1 timer1 = plain_child_event box1 timer1"
    using b child_events_request_relayout [of plain_child_event box1 timer1] by blast+
  show ?thesis
    using a b c d e p by simp
qed

text \<open>
  C9: the spacing of a new VContainer or HContainer is 10; assigning a negative
  spacing is rejected with a configuration error at the assignment, and the object
  keeps its value; assigning any other spacing stores it; so after any run of
  assignments, accepted or rejected, the stored spacing is non-negative.
\<close>

theorem spacing_non_negative:
  "vcontainer.spacing (fst (VContainer_new i s)) = 10
   \<and> hcontainer.spacing (fst (HContainer_new i s)) = 10
   \<and> (v < 0 \<longrightarrow>
        VContainer_set_spacing vself v = Inl ConfigurationError
        \<and> HContainer_set_spacing hself v = Inl ConfigurationError
        \<and> VContainer_assign_spacings vself [v] = vself
        \<and> HContainer_assign_spacings hself [v] = hself)
   \<and> (0 \<le> v \<longrightarrow>
        VContainer_set_spacing vself v = Inr (vself\<lparr>vcontainer.spacing := v\<rparr>)
        \<and> HContainer_set_spacing hself v = Inr (hself\<lparr>hcontainer.spacing := v\<rparr>))
   \<and> 0 \<le> vcontainer.spacing (VContainer_assign_spacings (fst (VContainer_new i s)) vs)
   \<and> 0 \<le> hcontainer.spacing (HContainer_assign_spacings (fst (HContainer_new i s)) vs)"
proof -
  have v0: "vcontainer.spacing (fst (VContainer_new i s)) = 10"
    by (simp add: VContainer_new_def split_beta)
  have h0: "hcontainer.spacing (fst (HContainer_new i s)) = 10"
    by (simp add: HContainer_new_def split_beta)
  have vinv: "0 \<le> vcontainer.spacing (VContainer_assign_spacings (fst (VContainer_new i s)) vs)"
    by (rule VContainer_assign_spacings_inv) (simp add: v0)
  have hinv: "0 \<le> hcontainer.spacing (HContainer_assign_spacings (fst (HContainer_new i s)) vs)"
    by (rule HContainer_assign_spacings_inv) (simp add: h0)
  show ?thesis
    using v0 h0 vinv hinv
    by (simp add: VContainer_set_spacing_cases HContainer_set_spacing_cases)
qed

theorem spacing_non_negative_witness:
  "(-1::int) < 0
   \<and> VContainer_set_spacing vbox1 (-1) = Inl ConfigurationError
   \<and> HContainer_set_spacing hbox1 (-1) = Inl ConfigurationError
   \<and> (0::int) \<le> 3
   \<and> VContainer_set_spacing vbox1 3 = Inr (vbox1\<lparr>vcontainer.spacing := 3\<rparr>)
   \<and> HContainer_set_spacing hbox1 3 = Inr (hbox1\<lparr>hcontainer.spacing := 3\<rparr>)
   \<and> vcontainer.spacing (VContainer_assign_spacings vbox1 [3, -1]) = 3"
proof -
  have n: "(-1::int) < 0" and p: "(0::int) \<le> 3"
    by simp_all
  have a: "VContainer_set_spacing vbox1 (-1) = Inl ConfigurationError"
    "HContainer_set_spacing hbox1 (-1) = Inl ConfigurationError"
    "VContainer_assign_spacings (vbox1\<lparr>vcontainer.spacing := 3\<rparr>) [-1]
       = vbox1\<lparr>vcontainer.spacing := 3\<rparr>"
    using n spacing_non_negative [of 0 empty_store "-1" vbox1 hbox1 "[]"]
      spacing_non_negative [of 0 empty_store "-1" "vbox1\<lparr>vcontainer.spacing := 3\<rparr>" hbox1 "[]"]
    by blast+
  have b: "VContainer_set_spacing vbox1 3 = Inr (vbox1\<lparr>vcontainer.spacing := 3\<rparr>)"
    "HContainer_set_spacing hbox1 3 = Inr (hbox1\<lparr>hcontainer.spacing := 3\<rparr>)"
    using p spacing_non_negative [of 0 empty_store 3 vbox1 hbox1 "[]"] by blast+
  have c: "VContainer_assign_spacings vbox1 [3, -1]
             = VContainer_assign_spacings (vbox1\<lparr>vcontainer.spacing := 3\<rparr>) [-1]"
    using b by simp
  show ?thesis
    using n p a b c by simp
qed

text \<open>
  C10: a new Container hugs neither its width nor its height: both policies are
  \<open>'ignore'\<close>, and the stacking containers inherit the default.
\<close>

theorem hug_defaults_ignore:
  "hug_width (fst (Container_new i s)) = ''ignore''
   \<and> hug_height (fst (Container_new i s)) = ''ignore''
   \<and> hug_width (fst (VContainer_new i s)) = ''ignore''
   \<and> hug_height (fst (VContainer_new i s)) = ''ignore''
   \<and> hug_width (fst (HContainer_new i s)) = ''ignore''
   \<and> hug_height (fst (HContainer_new i s)) = ''ignore''"
  by (simp add: Container_new_def VContainer_new_def HContainer_new_def split_beta)

end
